theory Spec2Isabelle
  imports Main "HOL-Library.Multiset"
begin

section \<open>JavaScript values and string helpers\<close>

text \<open>
  A value that may be \<open>undefined\<close> (an unset environment variable, a missing header or
  query parameter) is a \<open>string option\<close>. \<open>a || d\<close> on such a value yields \<open>d\<close> when
  \<open>a\<close> is \<open>undefined\<close> or the empty string, the two falsy cases a string-or-undefined
  value has.
\<close>

definition truthy :: "string option \<Rightarrow> bool" where
  "truthy v = (case v of None \<Rightarrow> False | Some s \<Rightarrow> s \<noteq> [])"

definition js_or :: "string option \<Rightarrow> string \<Rightarrow> string" where
  "js_or v d = (if truthy v then the v else d)"

text \<open>
  \<open>String.prototype.toLowerCase\<close> on the ASCII letters; every other character is left
  as it is. Host names returned by the URL parser and request paths are ASCII.
\<close>

definition lower_char :: "char \<Rightarrow> char" where
  "lower_char c =
     (case map_of (zip ''ABCDEFGHIJKLMNOPQRSTUVWXYZ'' ''abcdefghijklmnopqrstuvwxyz'') c of
        None \<Rightarrow> c
      | Some d \<Rightarrow> d)"

definition toLowerCase :: "string \<Rightarrow> string" where
  "toLowerCase s = map lower_char s"

text \<open>
  \<open>String.prototype.trim\<close>: white space is removed at both ends. The white space
  modelled is the ASCII one (space, tab, line feed, vertical tab, form feed, carriage
  return).
\<close>

definition is_space :: "char \<Rightarrow> bool" where
  "is_space c = (c \<in> set [CHR '' '', CHR 0x09, CHR 0x0A, CHR 0x0B, CHR 0x0C, CHR 0x0D])"

definition trim :: "string \<Rightarrow> string" where
  "trim s = rev (dropWhile is_space (rev (dropWhile is_space s)))"

text \<open>
  \<open>s.split(",")\<close>: the pieces between commas; the empty string gives one empty piece,
  so the result is never the empty array.
\<close>

fun split_comma :: "string \<Rightarrow> string list" where
  "split_comma [] = [[]]"
| "split_comma (c # cs) =
     (if c = CHR '','' then [] # split_comma cs
      else (case split_comma cs of
              [] \<Rightarrow> [[c]]
            | p # ps \<Rightarrow> (c # p) # ps))"

text \<open>\<open>s.split(",")[0]\<close>\<close>

definition first_piece :: "string \<Rightarrow> string" where
  "first_piece s = (case split_comma s of [] \<Rightarrow> [] | p # _ \<Rightarrow> p)"

text \<open>\<open>s.startsWith(p)\<close>\<close>

definition startsWith :: "string \<Rightarrow> string \<Rightarrow> bool" where
  "startsWith s p = (take (length p) s = p)"


section \<open>Configuration\<close>

text \<open>
  The environment variables the hardened server reads at start (lines 133 to 138 of
  \<open>index.js\<close>).
\<close>

record config =
  FOB_ADMIN_PASS :: "string option"
  DATABASE_URL_env :: "string option"
  DEST_HOST_ALLOWLIST_env :: "string option"

definition ADMIN :: "config \<Rightarrow> string" where
  "ADMIN cfg = js_or (FOB_ADMIN_PASS cfg) ''testpass''"

definition DATABASE_URL :: "config \<Rightarrow> string" where
  "DATABASE_URL cfg = js_or (DATABASE_URL_env cfg) ''''"

definition DEST_HOST_ALLOWLIST :: "config \<Rightarrow> string list" where
  "DEST_HOST_ALLOWLIST cfg =
     filter (\<lambda>s. s \<noteq> [])
       (map (\<lambda>s. toLowerCase (trim s))
          (split_comma (js_or (DEST_HOST_ALLOWLIST_env cfg) '''')))"

text \<open>\<open>let pool = null; if (DATABASE_URL) { pool = new Pool(...) }\<close>\<close>

definition has_pool :: "config \<Rightarrow> bool" where
  "has_pool cfg = (DATABASE_URL cfg \<noteq> [])"


section \<open>Destination validation\<close>

text \<open>
  The two properties of a parsed URL that the server reads. The URL parser itself is
  Node's; it is a parameter \<open>new_URL\<close> of the model, and \<open>None\<close> stands for the
  \<open>TypeError\<close> it throws on a string that is not an absolute URL.
\<close>

record url =
  protocol :: string
  hostname :: string

definition fallback :: string where
  "fallback = ''https://example.com''"

definition isAllowedDest :: "(string \<Rightarrow> url option) \<Rightarrow> string list \<Rightarrow> string \<Rightarrow> bool" where
  "isAllowedDest new_URL allowlist raw =
     (case new_URL raw of
        None \<Rightarrow> False
      | Some u \<Rightarrow>
          if protocol u \<noteq> ''https:'' \<and> protocol u \<noteq> ''http:'' then False
          else if length allowlist = 0 then True
          else toLowerCase (hostname u) \<in> set allowlist)"

text \<open>
  Lines 256 and 257: \<open>rawDest\<close> is the \<open>dest\<close> query parameter or the fallback, and
  \<open>dest\<close> is \<open>rawDest\<close> when it is allowed and the fallback otherwise.
\<close>

definition validate :: "(string \<Rightarrow> url option) \<Rightarrow> string list \<Rightarrow> string \<Rightarrow> string" where
  "validate new_URL allowlist rawDest =
     (if isAllowedDest new_URL allowlist rawDest then rawDest else fallback)"

definition resolve_dest ::
  "(string \<Rightarrow> url option) \<Rightarrow> config \<Rightarrow> string option \<Rightarrow> string" where
  "resolve_dest new_URL cfg query_dest =
     validate new_URL (DEST_HOST_ALLOWLIST cfg) (js_or query_dest fallback)"

text \<open>
  The results of Node's URL parser on the strings used as examples below; every other
  string is treated as unparsable by this table.
\<close>

definition sample_URL :: "string \<Rightarrow> url option" where
  "sample_URL = map_of
     [(''https://example.com/ok'', \<lparr>protocol = ''https:'', hostname = ''example.com''\<rparr>),
      (''https://example.com'', \<lparr>protocol = ''https:'', hostname = ''example.com''\<rparr>),
      (''https://example.com/a b'', \<lparr>protocol = ''https:'', hostname = ''example.com''\<rparr>),
      (''https://evil.com/x'', \<lparr>protocol = ''https:'', hostname = ''evil.com''\<rparr>),
      (''HTTP://Example.COM/a?b=c#d'', \<lparr>protocol = ''http:'', hostname = ''example.com''\<rparr>),
      (''https://x'', \<lparr>protocol = ''https:'', hostname = ''x''\<rparr>),
      (''ftp://example.com/f'', \<lparr>protocol = ''ftp:'', hostname = ''example.com''\<rparr>),
      (''javascript:alert(1)'', \<lparr>protocol = ''javascript:'', hostname = ''''\<rparr>)]"



section \<open>Requests, responses and the state of the server\<close>

text \<open>
  The request methods modelled. \<open>OPTIONS\<close>, which Express answers by itself for a path
  that has a route, is left out.
\<close>

datatype http_method = GET | HEAD | POST | PUT | DELETE

text \<open>
  What the handlers read of a request: \<open>req.path\<close>, the query parameters \<open>dest\<close> and
  \<open>day\<close>, three headers and \<open>req.ip\<close>. Only string-valued query parameters are
  modelled.
\<close>

record request =
  meth :: http_method
  path :: string
  query_dest :: "string option"
  query_day :: "string option"
  x_admin_pass :: "string option"
  x_forwarded_for :: "string option"
  user_agent :: "string option"
  req_ip :: "string option"

text \<open>
  A row of the \<open>clicks\<close> table. The date part of a timestamp is what the store's
  \<open>ts::date\<close> yields.
\<close>

type_synonym date = "nat \<times> nat \<times> nat"

record timestamp =
  ts_date :: date
  ts_clock :: nat

record click =
  click_id :: nat
  ts :: timestamp
  slug :: string
  dest :: string
  ip :: string
  ua :: string

text \<open>A row of \<open>SELECT ts, slug, left(dest, 60) AS dest\<close>.\<close>

record last_row =
  l_ts :: timestamp
  l_slug :: string
  l_dest :: string

datatype hval = Str string | Num nat

datatype body =
    Text string
  | Json_rows "last_row list"
  | Json_status_ok string nat
  | Json_status_fail string
  | Json_error string
  | Redirecting_to string
  | Metrics_text
  | Default_404

record response =
  status :: nat
  headers :: "(string \<times> hval) list"
  body :: body

text \<open>
  The mutable state: \<open>app.locals.killed\<close> (\<open>None\<close> until it is first assigned), the
  \<open>clicks_total\<close> counter by slug label, the limiter's hit store, the \<open>clicks\<close> table
  with its \<open>SERIAL\<close> sequence, and the lines written to the console (without their emoji).
\<close>

record app_state =
  killed :: "bool option"
  clicksTotal :: "string \<Rightarrow> nat"
  limiter_hits :: "string \<Rightarrow> (nat \<times> nat) option"
  clicks :: "click list"
  next_id :: nat
  console :: "string list"

text \<open>
  The libraries the handlers call, as parameters: Node's URL parser, the store's cast of
  a text to a date (\<open>None\<close>: the store rejects the query), the CSV encoder of
  \<open>json2csv\<close> applied to rows with the given columns (\<open>Inl\<close>: it throws), the key
  generator of the rate limiter, and the percent-encoding that Express applies to the
  target of a redirect.
\<close>

record lib =
  new_URL :: "string \<Rightarrow> url option"
  to_date :: "string \<Rightarrow> date option"
  csv_parse :: "string list \<Rightarrow> click list \<Rightarrow> string + string"
  key_of :: "request \<Rightarrow> string"
  encodeUrl :: "string \<Rightarrow> string"

text \<open>
  What the outside world contributes while one request is served: the clock in
  milliseconds, \<open>new Date().toISOString()\<close>, the store's \<open>now()\<close>, and whether the
  store query of this request fails (\<open>Some m\<close>: the promise rejects with message \<open>m\<close>).
\<close>

record env =
  now_ms :: nat
  now_iso :: string
  db_now :: timestamp
  db_error :: "string option"

datatype 'a outcome = Fulfilled 'a | Rejected string

definition send :: "nat \<Rightarrow> string \<Rightarrow> response" where
  "send code text = \<lparr>status = code, headers = [], body = Text text\<rparr>"

definition json :: "nat \<Rightarrow> body \<Rightarrow> response" where
  "json code b = \<lparr>status = code, headers = [], body = b\<rparr>"

text \<open>
  \<open>res.redirect(302, dest)\<close>: Express percent-encodes the target, sets it as the
  \<open>Location\<close> header and writes a short notice that names the encoded address, as text
  or as HTML by what the request accepts. The special target \<open>back\<close> is not an absolute
  URL and so never reaches this call.
\<close>

definition redirect :: "(string \<Rightarrow> string) \<Rightarrow> nat \<Rightarrow> string \<Rightarrow> response" where
  "redirect enc code target =
     \<lparr>status = code, headers = [(''Location'', Str (enc target))],
      body = Redirecting_to (enc target)\<rparr>"

definition forbidden :: response where
  "forbidden = send 403 ''forbidden''"


section \<open>Route matching\<close>

text \<open>
  Express matches a route path without regard to case and with an optional trailing
  slash; a middleware mounted at a path sees every path below it. Paths are taken as
  already decoded.
\<close>

definition route_is :: "string \<Rightarrow> string \<Rightarrow> bool" where
  "route_is pat p = (toLowerCase p = pat \<or> toLowerCase p = pat @ ''/'')"

definition route_root :: "string \<Rightarrow> bool" where
  "route_root p = (p = ''/'' \<or> p = [])"

definition mounted_at :: "string \<Rightarrow> string \<Rightarrow> bool" where
  "mounted_at pat p = (toLowerCase p = pat \<or> startsWith (toLowerCase p) (pat @ ''/''))"

text \<open>The parameter of \<open>/go/:slug\<close>: one non-empty path segment after \<open>/go/\<close>.\<close>

definition go_slug :: "string \<Rightarrow> string option" where
  "go_slug p =
     (if toLowerCase (take 4 p) = ''/go/'' then
        (let rest = drop 4 p;
             seg = (if rest \<noteq> [] \<and> last rest = CHR ''/'' then butlast rest else rest)
         in if seg \<noteq> [] \<and> CHR ''/'' \<notin> set seg then Some seg else None)
      else None)"

text \<open>A route registered with \<open>app.get\<close> also serves \<open>HEAD\<close>.\<close>

definition is_get :: "http_method \<Rightarrow> bool" where
  "is_get m = (m = GET \<or> m = HEAD)"


section \<open>Admin authorisation\<close>

text \<open>The hardened server (line 141): the header against \<open>ADMIN\<close>.\<close>

definition adminOK :: "config \<Rightarrow> request \<Rightarrow> bool" where
  "adminOK cfg req = (x_admin_pass req = Some (ADMIN cfg))"

text \<open>
  The first server (line 80): the header against \<open>process.env.FOB_ADMIN_PASS\<close> itself,
  with \<open>===\<close>, so that \<open>undefined\<close> equals \<open>undefined\<close>.
\<close>

definition adminOK_v1 :: "string option \<Rightarrow> request \<Rightarrow> bool" where
  "adminOK_v1 fob_admin_pass req = (x_admin_pass req = fob_admin_pass)"


section \<open>The store\<close>

text \<open>
  \<open>INSERT INTO clicks (slug, dest, ip, ua)\<close>: the store assigns the next id and its own
  \<open>now()\<close>; a failing query changes nothing and rejects.
\<close>

record insert_args =
  i_slug :: string
  i_dest :: string
  i_ip :: string
  i_ua :: string

definition pool_insert :: "env \<Rightarrow> insert_args \<Rightarrow> app_state \<Rightarrow> app_state \<times> unit outcome" where
  "pool_insert e a st =
     (case db_error e of
        Some m \<Rightarrow> (st, Rejected m)
      | None \<Rightarrow>
          (st\<lparr>clicks := clicks st @
                 [\<lparr>click_id = next_id st, ts = db_now e, slug = i_slug a, dest = i_dest a,
                   ip = i_ip a, ua = i_ua a\<rparr>],
               next_id := next_id st + 1\<rparr>,
           Fulfilled ()))"

text \<open>\<open>SELECT ts, slug, left(dest, 60) AS dest FROM clicks ORDER BY id DESC LIMIT 5\<close>\<close>

definition select_last :: "click list \<Rightarrow> last_row list" where
  "select_last tbl =
     map (\<lambda>c. \<lparr>l_ts = ts c, l_slug = slug c, l_dest = take 60 (dest c)\<rparr>)
       (take 5 (rev (sort_key click_id tbl)))"

text \<open>\<open>SELECT * FROM clicks ORDER BY id DESC LIMIT 1000\<close>\<close>

definition select_export :: "click list \<Rightarrow> click list" where
  "select_export tbl = take 1000 (rev (sort_key click_id tbl))"

text \<open>\<open>SELECT id, ts, ip, ua, slug, dest FROM clicks WHERE ts::date = $1::date ORDER BY id\<close>\<close>

definition select_day :: "date \<Rightarrow> click list \<Rightarrow> click list" where
  "select_day d tbl = sort_key click_id (filter (\<lambda>c. ts_date (ts c) = d) tbl)"


section \<open>Start of the process\<close>

definition initial_state :: app_state where
  "initial_state =
     \<lparr>killed = None, clicksTotal = (\<lambda>_. 0), limiter_hits = (\<lambda>_. None), clicks = [],
      next_id = 1, console = []\<rparr>"

text \<open>
  The hardened server (lines 156 to 187): without \<open>DATABASE_URL\<close> there is no pool and a
  warning; with it, the schema is set up in a detached async function whose failure is
  caught and logged. \<open>schema\<close> is the outcome of that set-up.
\<close>

definition startup :: "config \<Rightarrow> unit outcome \<Rightarrow> app_state" where
  "startup cfg schema =
     (if has_pool cfg then
        (case schema of
           Fulfilled _ \<Rightarrow>
             initial_state\<lparr>console := [''Postgres connected, clicks table/indexes ready'']\<rparr>
         | Rejected m \<Rightarrow> initial_state\<lparr>console := [''DB init error: '' @ m]\<rparr>)
      else initial_state\<lparr>console := [''No DATABASE_URL set. Logging disabled.'']\<rparr>)"

text \<open>
  The first server (lines 21 to 35): the pool is always created and
  \<open>CREATE TABLE IF NOT EXISTS\<close> is awaited at the top level of the module with nothing to
  catch a rejection, which ends the process before \<open>app.listen\<close>.
\<close>

definition startup_v1 :: "unit outcome \<Rightarrow> string + app_state" where
  "startup_v1 create_table =
     (case create_table of
        Rejected m \<Rightarrow> Inl m
      | Fulfilled _ \<Rightarrow> Inr initial_state)"


section \<open>Health, kill switch and root\<close>

definition status_handler :: "config \<Rightarrow> env \<Rightarrow> app_state \<Rightarrow> app_state \<times> response" where
  "status_handler cfg e st =
     (if has_pool cfg then
        (case db_error e of
           Some m \<Rightarrow> (st, json 200 (Json_status_fail m))
         | None \<Rightarrow> (st, json 200 (Json_status_ok (now_iso e) (length (clicks st)))))
      else (st, json 200 (Json_status_ok (now_iso e) 0)))"

text \<open>The truthiness of \<open>app.locals.killed\<close>.\<close>

definition is_killed :: "app_state \<Rightarrow> bool" where
  "is_killed st = (killed st = Some True)"

definition kill_gate :: "request \<Rightarrow> app_state \<Rightarrow> bool" where
  "kill_gate req st = (is_killed st \<and> \<not> startsWith (path req) ''/admin'')"

definition admin_kill :: "config \<Rightarrow> request \<Rightarrow> app_state \<Rightarrow> app_state \<times> response" where
  "admin_kill cfg req st =
     (if \<not> adminOK cfg req then (st, forbidden)
      else (st\<lparr>killed := Some True\<rparr>, send 200 ''killed''))"

definition admin_unkill :: "config \<Rightarrow> request \<Rightarrow> app_state \<Rightarrow> app_state \<times> response" where
  "admin_unkill cfg req st =
     (if \<not> adminOK cfg req then (st, forbidden)
      else (st\<lparr>killed := Some False\<rparr>, send 200 ''un-killed''))"

text \<open>The greeting of the root route, without its leading emoji.\<close>

definition root_handler :: "app_state \<Rightarrow> app_state \<times> response" where
  "root_handler st = (st, send 200 ''Tiny FOB v2 online.'')"


section \<open>Rate limiting\<close>

text \<open>The options given to \<open>rateLimit\<close> at lines 235 to 240.\<close>

record limiter_options =
  windowMs :: nat
  max_hits :: nat
  standardHeaders :: bool
  legacyHeaders :: bool

definition goLimiter :: limiter_options where
  "goLimiter = \<lparr>windowMs = 60000, max_hits = 120, standardHeaders = True, legacyHeaders = False\<rparr>"

text \<open>
  Modelled from the spec: the limiter middleware that \<open>rateLimit\<close> builds (the package
  \<open>express-rate-limit\<close> is not in the repository). Per client key it keeps the end of
  the current fixed window and the number of hits in it; a hit after the end of the
  window opens a new one. A request is let through while the hits of its window do not
  exceed the maximum, and is answered with 429 otherwise. Informational headers give the
  limit, the remaining quota and the seconds until the window ends, in the standard names
  and in the legacy names as the two options say.
\<close>

definition limiter_increment ::
  "limiter_options \<Rightarrow> nat \<Rightarrow> string \<Rightarrow> (string \<Rightarrow> (nat \<times> nat) option)
     \<Rightarrow> (string \<Rightarrow> (nat \<times> nat) option) \<times> nat \<times> nat" where
  "limiter_increment opts now k h =
     (case h k of
        None \<Rightarrow> (h(k \<mapsto> (now + windowMs opts, 1)), 1, now + windowMs opts)
      | Some (reset, n) \<Rightarrow>
          if now < reset then (h(k \<mapsto> (reset, n + 1)), n + 1, reset)
          else (h(k \<mapsto> (now + windowMs opts, 1)), 1, now + windowMs opts))"

text \<open>
  Modelled from the spec: the informational headers of the limiter, the standard names
  under \<open>standardHeaders\<close> and the legacy names under \<open>legacyHeaders\<close>.
\<close>

definition limiter_headers ::
  "limiter_options \<Rightarrow> nat \<Rightarrow> nat \<Rightarrow> nat \<Rightarrow> (string \<times> hval) list" where
  "limiter_headers opts now hits reset =
     (if standardHeaders opts then
        [(''RateLimit-Limit'', Num (max_hits opts)),
         (''RateLimit-Remaining'', Num (max_hits opts - hits)),
         (''RateLimit-Reset'', Num ((reset - now + 999) div 1000))]
      else [])
     @ (if legacyHeaders opts then
          [(''X-RateLimit-Limit'', Num (max_hits opts)),
           (''X-RateLimit-Remaining'', Num (max_hits opts - hits)),
           (''X-RateLimit-Reset'', Num ((reset - now + 999) div 1000))]
        else [])"

text \<open>
  Modelled from the spec: the middleware counts the hit, sets the headers and either
  calls \<open>next()\<close> or answers 429.
\<close>

datatype limited = Passed "(string \<times> hval) list" | Limited response

definition rateLimit ::
  "limiter_options \<Rightarrow> lib \<Rightarrow> env \<Rightarrow> request \<Rightarrow> app_state \<Rightarrow> app_state \<times> limited" where
  "rateLimit opts l e req st =
     (case limiter_increment opts (now_ms e) (key_of l req) (limiter_hits st) of
        (h, hits, reset) \<Rightarrow>
          (let hs = limiter_headers opts (now_ms e) hits reset;
               st' = st\<lparr>limiter_hits := h\<rparr>
           in if max_hits opts < hits then
                (st', Limited \<lparr>status = 429, headers = hs,
                               body = Text ''Too many requests, please try again later.''\<rparr>)
              else (st', Passed hs)))"


section \<open>The redirect handler\<close>

text \<open>Line 259: the first entry of the forwarded-for chain, or \<open>req.ip\<close>, trimmed.\<close>

definition client_ip :: "request \<Rightarrow> string" where
  "client_ip req =
     trim (first_piece (js_or (x_forwarded_for req) (js_or (req_ip req) [])))"

text \<open>
  The handler is an async function. It runs to its \<open>await\<close> (\<open>go_start\<close>), where it is
  suspended until the insert has settled, and continues from there with the outcome
  (\<open>go_resume\<close>): a rejection lands in the \<open>catch\<close> block, which logs it. Without a
  pool there is no \<open>await\<close> and the handler runs to its end at once. \<open>go_finish\<close> is
  lines 273 and 274.
\<close>

datatype go_step = Responded "app_state \<times> response" | Awaiting insert_args

definition go_finish ::
  "lib \<Rightarrow> string \<Rightarrow> string \<Rightarrow> app_state \<Rightarrow> app_state \<times> response" where
  "go_finish l sl d st =
     (st\<lparr>clicksTotal := (clicksTotal st)(sl := clicksTotal st sl + 1)\<rparr>,
      redirect (encodeUrl l) 302 d)"

definition go_start :: "lib \<Rightarrow> config \<Rightarrow> request \<Rightarrow> string \<Rightarrow> app_state \<Rightarrow> go_step" where
  "go_start l cfg req sl st =
     (let d = resolve_dest (new_URL l) cfg (query_dest req);
          i = client_ip req;
          u = js_or (user_agent req) []
      in if has_pool cfg then Awaiting \<lparr>i_slug = sl, i_dest = d, i_ip = i, i_ua = u\<rparr>
         else Responded (go_finish l sl d st))"

definition go_resume ::
  "lib \<Rightarrow> insert_args \<Rightarrow> unit outcome \<Rightarrow> app_state \<Rightarrow> app_state \<times> response" where
  "go_resume l a out st =
     (case out of
        Fulfilled _ \<Rightarrow> go_finish l (i_slug a) (i_dest a) st
      | Rejected m \<Rightarrow>
          go_finish l (i_slug a) (i_dest a)
            (st\<lparr>console := console st @ [''insert fail: '' @ m]\<rparr>))"

text \<open>The response a suspended or finished handler has sent so far.\<close>

definition response_sent :: "go_step \<Rightarrow> response option" where
  "response_sent s = (case s of Responded r \<Rightarrow> Some (snd r) | Awaiting _ \<Rightarrow> None)"

text \<open>The handler from the request to the response, the store settling in between.\<close>

definition go_handler ::
  "lib \<Rightarrow> config \<Rightarrow> env \<Rightarrow> request \<Rightarrow> string \<Rightarrow> app_state \<Rightarrow> app_state \<times> response" where
  "go_handler l cfg e req sl st =
     (case go_start l cfg req sl st of
        Responded r \<Rightarrow> r
      | Awaiting a \<Rightarrow> (case pool_insert e a st of (st', out) \<Rightarrow> go_resume l a out st'))"


section \<open>Admin endpoints\<close>

definition admin_last :: "config \<Rightarrow> env \<Rightarrow> request \<Rightarrow> app_state \<Rightarrow> app_state \<times> response" where
  "admin_last cfg e req st =
     (if \<not> adminOK cfg req then (st, forbidden)
      else if has_pool cfg then
        (case db_error e of
           Some m \<Rightarrow> (st, json 500 (Json_error m))
         | None \<Rightarrow> (st, json 200 (Json_rows (select_last (clicks st)))))
      else (st, json 200 (Json_rows [])))"

definition csv_response :: "string \<Rightarrow> string \<Rightarrow> response" where
  "csv_response filename text =
     \<lparr>status = 200,
      headers = [(''Content-Type'', Str ''text/csv''),
                 (''Content-Disposition'', Str (''attachment; filename='' @ filename))],
      body = Text text\<rparr>"

definition admin_export :: "lib \<Rightarrow> config \<Rightarrow> env \<Rightarrow> request \<Rightarrow> app_state \<Rightarrow> app_state \<times> response" where
  "admin_export l cfg e req st =
     (if \<not> adminOK cfg req then (st, forbidden)
      else
        (case (if has_pool cfg then
                 (case db_error e of
                    Some m \<Rightarrow> Rejected m
                  | None \<Rightarrow> Fulfilled (select_export (clicks st)))
               else Fulfilled []) of
           Rejected m \<Rightarrow> (st, send 500 (''error exporting CSV: '' @ m))
         | Fulfilled rows \<Rightarrow>
             (case csv_parse l [''id'', ''ts'', ''slug'', ''dest'', ''ip'', ''ua''] rows of
                Inl m \<Rightarrow> (st, send 500 (''error exporting CSV: '' @ m))
              | Inr text \<Rightarrow> (st, csv_response ''clicks.csv'' text))))"

text \<open>Line 309: the \<open>day\<close> parameter, or the first ten characters of the ISO time.\<close>

definition export_day_param :: "env \<Rightarrow> request \<Rightarrow> string" where
  "export_day_param e req = trim (js_or (query_day req) (take 10 (now_iso e)))"

definition admin_export_day ::
  "lib \<Rightarrow> config \<Rightarrow> env \<Rightarrow> request \<Rightarrow> app_state \<Rightarrow> app_state \<times> response" where
  "admin_export_day l cfg e req st =
     (if \<not> adminOK cfg req then (st, forbidden)
      else
        (let day = export_day_param e req in
         case (if has_pool cfg then
                 (case db_error e of
                    Some m \<Rightarrow> Rejected m
                  | None \<Rightarrow>
                      (case to_date l day of
                         None \<Rightarrow> Rejected (''invalid input syntax for type date: '' @ day)
                       | Some d \<Rightarrow> Fulfilled (select_day d (clicks st))))
               else Fulfilled []) of
           Rejected m \<Rightarrow> (st, send 500 (''export error: '' @ m))
         | Fulfilled rows \<Rightarrow>
             (case csv_parse l [''id'', ''ts'', ''ip'', ''ua'', ''slug'', ''dest''] rows of
                Inl m \<Rightarrow> (st, send 500 (''export error: '' @ m))
              | Inr text \<Rightarrow> (st, csv_response (''clicks_'' @ day @ ''.csv'') text))))"

definition metrics_handler :: "app_state \<Rightarrow> app_state \<times> response" where
  "metrics_handler st = (st, \<lparr>status = 200, headers = [], body = Metrics_text\<rparr>)"


section \<open>The application: handlers in the order of their registration\<close>

definition add_headers :: "(string \<times> hval) list \<Rightarrow> app_state \<times> response \<Rightarrow> app_state \<times> response" where
  "add_headers hs r = (fst r, (snd r)\<lparr>headers := hs @ headers (snd r)\<rparr>)"

text \<open>The routes registered after the limiter (lines 254 to 333), then Express's 404.\<close>

definition after_limiter ::
  "lib \<Rightarrow> config \<Rightarrow> env \<Rightarrow> request \<Rightarrow> app_state \<Rightarrow> app_state \<times> response" where
  "after_limiter l cfg e req st =
     (if is_get (meth req) \<and> go_slug (path req) \<noteq> None then
        go_handler l cfg e req (the (go_slug (path req))) st
      else if is_get (meth req) \<and> route_is ''/admin/last'' (path req) then
        admin_last cfg e req st
      else if is_get (meth req) \<and> route_is ''/admin/export'' (path req) then
        admin_export l cfg e req st
      else if is_get (meth req) \<and> route_is ''/admin/export/day'' (path req) then
        admin_export_day l cfg e req st
      else if is_get (meth req) \<and> route_is ''/metrics'' (path req) then
        metrics_handler st
      else (st, \<lparr>status = 404, headers = [], body = Default_404\<rparr>))"

text \<open>What follows the kill switch when it calls \<open>next()\<close> (lines 220 to 241).\<close>

definition after_gate ::
  "lib \<Rightarrow> config \<Rightarrow> env \<Rightarrow> request \<Rightarrow> app_state \<Rightarrow> app_state \<times> response" where
  "after_gate l cfg e req st =
     (if meth req = POST \<and> route_is ''/admin/kill'' (path req) then admin_kill cfg req st
      else if meth req = POST \<and> route_is ''/admin/unkill'' (path req) then
        admin_unkill cfg req st
      else if is_get (meth req) \<and> route_root (path req) then root_handler st
      else if mounted_at ''/go'' (path req) then
        (case rateLimit goLimiter l e req st of
           (st', Limited r) \<Rightarrow> (st', r)
         | (st', Passed hs) \<Rightarrow> add_headers hs (after_limiter l cfg e req st'))
      else after_limiter l cfg e req st)"

text \<open>
  The hardened application from its first route: \<open>/status\<close> (line 202) stands before the
  kill switch (line 214). The \<open>helmet\<close> and \<open>cors\<close> middlewares before them only set
  response headers and are left out.
\<close>

definition serve ::
  "lib \<Rightarrow> config \<Rightarrow> env \<Rightarrow> request \<Rightarrow> app_state \<Rightarrow> app_state \<times> response" where
  "serve l cfg e req st =
     (if is_get (meth req) \<and> route_is ''/status'' (path req) then status_handler cfg e st
      else if kill_gate req st then (st, send 503 ''Service unavailable'')
      else after_gate l cfg e req st)"

text \<open>Requests served one after the other, each with what the world is at its time.\<close>

fun serve_all ::
  "lib \<Rightarrow> config \<Rightarrow> app_state \<Rightarrow> (env \<times> request) list \<Rightarrow> app_state \<times> response list" where
  "serve_all l cfg st [] = (st, [])"
| "serve_all l cfg st (x # xs) =
     (case serve l cfg (fst x) (snd x) st of
        (st', r) \<Rightarrow> (case serve_all l cfg st' xs of (st'', rs) \<Rightarrow> (st'', r # rs)))"


section \<open>Reading a response\<close>

text \<open>The rows a response carries in a JSON array, none when its body is something else.\<close>

definition rows_of :: "response \<Rightarrow> last_row list" where
  "rows_of r = (case body r of Json_rows rs \<Rightarrow> rs | _ \<Rightarrow> [])"

text \<open>The status of a response and the names of its headers.\<close>

definition outline :: "response \<Rightarrow> nat \<times> string list" where
  "outline r = (status r, map fst (headers r))"


section \<open>Sample values\<close>

text \<open>
  Stand-ins for the library functions on the inputs of the examples below: the URL
  table above, two dates, an encoder that like \<open>json2csv\<close> rejects an empty row list,
  the client address as the limiter's key, and a percent-encoding of the space, the only
  character of the examples that needs one.
\<close>

definition sample_lib :: lib where
  "sample_lib =
     \<lparr>new_URL = sample_URL,
      to_date = map_of [(''2024-01-15'', (2024, 1, 15)), (''2024-01-16'', (2024, 1, 16)),
                        (''2024-01-17'', (2024, 1, 17))],
      csv_parse = (\<lambda>cols rows. if rows = [] then Inl ''Data should not be empty''
                                 else Inr (concat (map slug rows))),
      key_of = (\<lambda>req. js_or (req_ip req) []),
      encodeUrl = (\<lambda>s. concat (map (\<lambda>c. if c = CHR '' '' then ''%20'' else [c]) s))\<rparr>"

definition cfg_plain :: config where
  "cfg_plain = \<lparr>FOB_ADMIN_PASS = None, DATABASE_URL_env = None, DEST_HOST_ALLOWLIST_env = None\<rparr>"

definition cfg_db :: config where
  "cfg_db =
     \<lparr>FOB_ADMIN_PASS = Some ''s3cret'', DATABASE_URL_env = Some ''postgres://db/fob'',
      DEST_HOST_ALLOWLIST_env = Some ''Example.com, x''\<rparr>"

definition env0 :: env where
  "env0 =
     \<lparr>now_ms = 1000, now_iso = ''2024-01-15T10:00:00.000Z'',
      db_now = \<lparr>ts_date = (2024, 1, 15), ts_clock = 36000\<rparr>, db_error = None\<rparr>"

definition request0 :: request where
  "request0 =
     \<lparr>meth = GET, path = ''/'', query_dest = None, query_day = None, x_admin_pass = None,
      x_forwarded_for = None, user_agent = None, req_ip = Some ''10.0.0.7''\<rparr>"

definition go_abc :: request where
  "go_abc = request0\<lparr>path := ''/go/abc'', query_dest := Some ''https://x''\<rparr>"

definition go_space :: request where
  "go_space = request0\<lparr>path := ''/go/abc'', query_dest := Some ''https://example.com/a b''\<rparr>"

definition kill_request :: request where
  "kill_request =
     request0\<lparr>meth := POST, path := ''/admin/kill'', x_admin_pass := Some ''testpass''\<rparr>"

definition status_request :: request where
  "status_request = request0\<lparr>path := ''/status''\<rparr>"

definition env_down :: env where
  "env_down = env0\<lparr>db_error := Some ''connect ECONNREFUSED''\<rparr>"

definition killed_state :: app_state where
  "killed_state = fst (serve sample_lib cfg_plain env0 kill_request initial_state)"

definition click_of :: "nat \<Rightarrow> date \<Rightarrow> string \<Rightarrow> click" where
  "click_of n d sl =
     \<lparr>click_id = n, ts = \<lparr>ts_date = d, ts_clock = 0\<rparr>, slug = sl, dest = ''https://x'',
      ip = ''10.0.0.7'', ua = []\<rparr>"

definition sample_clicks :: "click list" where
  "sample_clicks =
     [click_of 1 (2024, 1, 14) ''a'', click_of 2 (2024, 1, 15) ''b'',
      click_of 3 (2024, 1, 15) ''c'', click_of 4 (2024, 1, 16) ''d'',
      click_of 5 (2024, 1, 15) ''e'', click_of 6 (2024, 1, 16) ''f'',
      click_of 7 (2024, 1, 16) ''g'']"

definition state_with_clicks :: app_state where
  "state_with_clicks = initial_state\<lparr>clicks := sample_clicks, next_id := 8\<rparr>"

definition last_request :: request where
  "last_request = request0\<lparr>path := ''/admin/last'', x_admin_pass := Some ''s3cret''\<rparr>"

definition day_request :: request where
  "day_request =
     request0\<lparr>path := ''/admin/export/day'', query_day := Some ''2024-01-15'',
              x_admin_pass := Some ''s3cret''\<rparr>"

definition empty_day_request :: request where
  "empty_day_request = day_request\<lparr>query_day := Some ''2024-01-17''\<rparr>"

definition plain_day_request :: request where
  "plain_day_request = day_request\<lparr>x_admin_pass := Some ''testpass''\<rparr>"


section \<open>Properties of the destination validator\<close>

lemma split_comma_not_Nil: "split_comma s \<noteq> []"
  by (induction s) (auto split: list.splits)

lemma js_or_Some_nonempty: "s \<noteq> [] \<Longrightarrow> js_or (Some s) d = s"
  by (simp add: js_or_def truthy_def)

lemma js_or_falsy: "js_or None d = d" "js_or (Some []) d = d"
  by (simp_all add: js_or_def truthy_def)

lemma validate_fallback_or_raw:
  "validate parse allowlist raw = raw \<or> validate parse allowlist raw = fallback"
  by (simp add: validate_def)

text \<open>A missing or empty \<open>dest\<close> parameter resolves to the fallback.\<close>

lemma resolve_dest_missing:
  "\<not> truthy q \<Longrightarrow> resolve_dest parse cfg q = fallback"
  using validate_fallback_or_raw [of parse "DEST_HOST_ALLOWLIST cfg" fallback]
  by (auto simp add: resolve_dest_def js_or_def)

text \<open>A non-empty \<open>dest\<close> parameter is handed to the validator as it is.\<close>

lemma resolve_dest_present:
  "raw \<noteq> [] \<Longrightarrow>
     resolve_dest parse cfg (Some raw) = validate parse (DEST_HOST_ALLOWLIST cfg) raw"
  by (simp add: resolve_dest_def js_or_Some_nonempty)

text \<open>The allowlist is read from a comma-separated variable, trimmed and lower-cased.\<close>

lemma allowlist_of_cfg_db: "DEST_HOST_ALLOWLIST cfg_db = [''example.com'', ''x'']"
  by (simp add: DEST_HOST_ALLOWLIST_def cfg_db_def js_or_def truthy_def trim_def is_space_def
      toLowerCase_def lower_char_def)

text \<open>
  Claim C1. The validator returns the raw string unchanged exactly when it parses as an
  absolute URL whose scheme is http or https and, when the allowlist is not empty, whose
  lower-cased host name is in the allowlist; in every other case (the parser throws, the
  scheme is another one, the host is not listed) it returns the fallback destination.
  It is a total function, so there is no input on which it fails.
\<close>

theorem validator_accepts_or_falls_back:
  "validate parse allowlist raw =
     (if (\<exists>u. parse raw = Some u
              \<and> (protocol u = ''http:'' \<or> protocol u = ''https:'')
              \<and> (allowlist \<noteq> [] \<longrightarrow> toLowerCase (hostname u) \<in> set allowlist))
      then raw else ''https://example.com'')"
proof (cases "parse raw")
  case None
  then show ?thesis
    by (simp add: validate_def isAllowedDest_def fallback_def)
next
  case (Some u)
  then show ?thesis
    by (auto simp add: validate_def isAllowedDest_def fallback_def)
qed

theorem validator_accepts_or_falls_back_witness:
  "validate sample_URL [''example.com''] ''https://example.com/ok'' = ''https://example.com/ok''
   \<and> validate sample_URL [''example.com''] ''https://evil.com/x'' = ''https://example.com''
   \<and> validate sample_URL [''example.com''] ''not a url'' = ''https://example.com''
   \<and> validate sample_URL [''example.com''] ''ftp://example.com/f'' = ''https://example.com''
   \<and> validate sample_URL [] ''https://evil.com/x'' = ''https://evil.com/x''"
  using validator_accepts_or_falls_back [of sample_URL "[''example.com'']" "''https://example.com/ok''"]
    validator_accepts_or_falls_back [of sample_URL "[''example.com'']" "''https://evil.com/x''"]
    validator_accepts_or_falls_back [of sample_URL "[''example.com'']" "''not a url''"]
    validator_accepts_or_falls_back [of sample_URL "[''example.com'']" "''ftp://example.com/f''"]
    validator_accepts_or_falls_back [of sample_URL "[]" "''https://evil.com/x''"]
  by (simp add: sample_URL_def toLowerCase_def lower_char_def)


section \<open>Admin authorisation with the secret unset\<close>

lemma serve_admin_kill:
  "serve l cfg e (req\<lparr>meth := POST, path := ''/admin/kill''\<rparr>) st
     = admin_kill cfg (req\<lparr>meth := POST, path := ''/admin/kill''\<rparr>) st"
proof -
  have "\<not> route_is ''/status'' ''/admin/kill''" and "route_is ''/admin/kill'' ''/admin/kill''"
    by (simp_all add: route_is_def toLowerCase_def lower_char_def)
  moreover have "startsWith ''/admin/kill'' ''/admin''"
    by (simp add: startsWith_def)
  ultimately show ?thesis
    by (simp add: serve_def kill_gate_def after_gate_def)
qed

text \<open>
  Claim C10. With \<open>FOB_ADMIN_PASS\<close> unset, the hardened server authorises exactly the
  requests whose \<open>x-admin-pass\<close> header is \<open>testpass\<close>, so such a request is
  authorised: sent as \<open>POST /admin/kill\<close> it engages the kill switch. The first server
  authorises exactly the requests that carry no \<open>x-admin-pass\<close> header, both sides of
  its comparison being \<open>undefined\<close>.
\<close>

theorem admin_secret_unset:
  "adminOK (cfg\<lparr>FOB_ADMIN_PASS := None\<rparr>) req = (x_admin_pass req = Some ''testpass'')
   \<and> adminOK (cfg\<lparr>FOB_ADMIN_PASS := None\<rparr>) (req\<lparr>x_admin_pass := Some ''testpass''\<rparr>)
   \<and> serve l (cfg\<lparr>FOB_ADMIN_PASS := None\<rparr>) e
         (req\<lparr>x_admin_pass := Some ''testpass'', meth := POST, path := ''/admin/kill''\<rparr>) st
       = (st\<lparr>killed := Some True\<rparr>, send 200 ''killed'')
   \<and> adminOK_v1 None req = (x_admin_pass req = None)
   \<and> adminOK_v1 None (req\<lparr>x_admin_pass := None\<rparr>)"
proof -
  have secret: "ADMIN (cfg\<lparr>FOB_ADMIN_PASS := None\<rparr>) = ''testpass''"
    by (simp add: ADMIN_def js_or_def truthy_def)
  have "serve l (cfg\<lparr>FOB_ADMIN_PASS := None\<rparr>) e
          (req\<lparr>x_admin_pass := Some ''testpass'', meth := POST, path := ''/admin/kill''\<rparr>) st
        = (st\<lparr>killed := Some True\<rparr>, send 200 ''killed'')"
    by (simp only: serve_admin_kill) (simp add: admin_kill_def adminOK_def secret)
  then show ?thesis
    by (simp add: adminOK_def adminOK_v1_def secret)
qed


section \<open>The kill switch\<close>

text \<open>
  Claim C7. For an authorised caller: kill on a killed switch changes nothing and answers
  200; after kill the switch is killed, and a second kill leaves the state it found;
  unkill on a live switch leaves it live, and a second unkill leaves the state it found.
  The switch is live when the process has started.
\<close>

theorem kill_switch_idempotent:
  assumes "adminOK cfg req"
  shows "(is_killed st \<longrightarrow> admin_kill cfg req st = (st, send 200 ''killed''))
       \<and> is_killed (fst (admin_kill cfg req st))
       \<and> admin_kill cfg req (fst (admin_kill cfg req st))
           = (fst (admin_kill cfg req st), send 200 ''killed'')
       \<and> (\<not> is_killed st \<longrightarrow> \<not> is_killed (fst (admin_unkill cfg req st)))
       \<and> admin_unkill cfg req (fst (admin_unkill cfg req st))
           = (fst (admin_unkill cfg req st), send 200 ''un-killed'')
       \<and> \<not> is_killed (startup cfg schema)"
  using assms
  by (auto simp add: admin_kill_def admin_unkill_def is_killed_def startup_def initial_state_def
      split: outcome.splits)

theorem kill_switch_idempotent_witness:
  "adminOK cfg_plain kill_request
   \<and> is_killed (fst (admin_kill cfg_plain kill_request initial_state))
   \<and> is_killed (fst (admin_kill cfg_plain kill_request
        (fst (admin_kill cfg_plain kill_request initial_state))))
   \<and> \<not> is_killed initial_state
   \<and> \<not> is_killed (fst (admin_unkill cfg_plain kill_request initial_state))
   \<and> \<not> is_killed (startup cfg_plain (Fulfilled ()))"
proof -
  have ok: "adminOK cfg_plain kill_request"
    by (simp add: adminOK_def ADMIN_def cfg_plain_def kill_request_def request0_def js_or_def
        truthy_def)
  have live: "\<not> is_killed initial_state"
    by (simp add: is_killed_def initial_state_def)
  from kill_switch_idempotent [OF ok, of initial_state "Fulfilled ()"]
    kill_switch_idempotent [OF ok,
      of "fst (admin_kill cfg_plain kill_request initial_state)" "Fulfilled ()"]
    ok live
  show ?thesis by simp
qed



section \<open>Facts about the sample values\<close>

lemma has_pool_cfg_db: "has_pool cfg_db"
  by (simp add: has_pool_def DATABASE_URL_def cfg_db_def js_or_def truthy_def)

lemma no_pool_cfg_plain: "\<not> has_pool cfg_plain"
  by (simp add: has_pool_def DATABASE_URL_def cfg_plain_def js_or_def truthy_def)

lemma query_dest_go_abc: "query_dest go_abc = Some ''https://x''"
  by (simp add: go_abc_def)

lemma resolve_go_abc_db: "resolve_dest sample_URL cfg_db (Some ''https://x'') = ''https://x''"
  by (simp add: resolve_dest_def validate_def isAllowedDest_def allowlist_of_cfg_db
      js_or_def truthy_def sample_URL_def toLowerCase_def lower_char_def)

lemma resolve_go_abc_plain: "resolve_dest sample_URL cfg_plain (Some ''https://x'') = ''https://x''"
  by (simp add: resolve_dest_def validate_def isAllowedDest_def DEST_HOST_ALLOWLIST_def cfg_plain_def
      js_or_def truthy_def sample_URL_def toLowerCase_def lower_char_def trim_def)

section \<open>The redirect handler and the store\<close>

lemma query_dest_go_space: "query_dest go_space = Some ''https://example.com/a b''"
  by (simp add: go_space_def)

lemma resolve_go_space_db:
  "resolve_dest sample_URL cfg_db (Some ''https://example.com/a b'') = ''https://example.com/a b''"
  by (simp add: resolve_dest_def validate_def isAllowedDest_def allowlist_of_cfg_db
      js_or_def truthy_def sample_URL_def toLowerCase_def lower_char_def)

lemma encodeUrl_sample:
  "encodeUrl sample_lib ''https://example.com/a b'' = ''https://example.com/a%20b''"
  "encodeUrl sample_lib ''https://x'' = ''https://x''"
  by (simp_all add: sample_lib_def)

lemma env_down_error: "db_error env_down = Some ''connect ECONNREFUSED''"
  by (simp add: env_down_def)

text \<open>
  Claim C4, as stated, fails in its last part: the \<open>Location\<close> header is not always the
  resolved destination. For the accepted destination \<open>https://example.com/a b\<close> and a
  failing insert the header is \<open>https://example.com/a%20b\<close>.
\<close>

theorem insert_failure_location_counterexample:
  "has_pool cfg_db \<and> db_error env_down = Some ''connect ECONNREFUSED''
   \<and> resolve_dest (new_URL sample_lib) cfg_db (query_dest go_space) = ''https://example.com/a b''
   \<and> headers (snd (go_handler sample_lib cfg_db env_down go_space ''abc'' initial_state))
       = [(''Location'', Str ''https://example.com/a%20b'')]
   \<and> headers (snd (go_handler sample_lib cfg_db env_down go_space ''abc'' initial_state))
       \<noteq> [(''Location'', Str (resolve_dest (new_URL sample_lib) cfg_db (query_dest go_space)))]"
proof -
  have n: "new_URL sample_lib = sample_URL"
    by (simp add: sample_lib_def)
  have h: "headers (snd (go_handler sample_lib cfg_db env_down go_space ''abc'' initial_state))
       = [(''Location'', Str ''https://example.com/a%20b'')]"
    using has_pool_cfg_db
    by (simp add: go_handler_def go_start_def pool_insert_def go_resume_def go_finish_def
        redirect_def Let_def env_down_error n query_dest_go_space resolve_go_space_db
        encodeUrl_sample)
  show ?thesis
    using has_pool_cfg_db
    by (simp add: h env_down_error n query_dest_go_space resolve_go_space_db)
qed

text \<open>
  Claim C4, amended. When the insert fails, the handler logs the error and goes on:
  nothing is stored and nothing is tried again, the counter of the slug goes up by one,
  and the response is 302 with \<open>Location\<close> set to the resolved destination as
  \<open>res.redirect\<close> percent-encodes it, which is the resolved destination itself whenever
  the encoding leaves it as it is.
\<close>

theorem insert_failure_is_swallowed:
  assumes "has_pool cfg" and "db_error e = Some m"
  shows "go_handler l cfg e req sl st =
           (st\<lparr>console := console st @ [''insert fail: '' @ m],
               clicksTotal := (clicksTotal st)(sl := clicksTotal st sl + 1)\<rparr>,
            \<lparr>status = 302,
             headers = [(''Location'',
                         Str (encodeUrl l (resolve_dest (new_URL l) cfg (query_dest req))))],
             body = Redirecting_to
                      (encodeUrl l (resolve_dest (new_URL l) cfg (query_dest req)))\<rparr>)
       \<and> (encodeUrl l (resolve_dest (new_URL l) cfg (query_dest req))
             = resolve_dest (new_URL l) cfg (query_dest req)
           \<longrightarrow> headers (snd (go_handler l cfg e req sl st))
                 = [(''Location'', Str (resolve_dest (new_URL l) cfg (query_dest req)))])"
  using assms
  by (simp add: go_handler_def go_start_def pool_insert_def go_resume_def go_finish_def
      redirect_def Let_def)

theorem insert_failure_is_swallowed_witness:
  "has_pool cfg_db \<and> db_error env_down = Some ''connect ECONNREFUSED''
   \<and> snd (go_handler sample_lib cfg_db env_down go_abc ''abc'' initial_state)
       = \<lparr>status = 302, headers = [(''Location'', Str ''https://x'')],
          body = Redirecting_to ''https://x''\<rparr>
   \<and> snd (go_handler sample_lib cfg_db env_down go_space ''abc'' initial_state)
       = \<lparr>status = 302, headers = [(''Location'', Str ''https://example.com/a%20b'')],
          body = Redirecting_to ''https://example.com/a%20b''\<rparr>
   \<and> clicksTotal (fst (go_handler sample_lib cfg_db env_down go_abc ''abc'' initial_state)) ''abc'' = 1
   \<and> clicks (fst (go_handler sample_lib cfg_db env_down go_abc ''abc'' initial_state)) = []
   \<and> console (fst (go_handler sample_lib cfg_db env_down go_abc ''abc'' initial_state))
       = [''insert fail: connect ECONNREFUSED'']"
proof -
  have n: "new_URL sample_lib = sample_URL"
    by (simp add: sample_lib_def)
  from insert_failure_is_swallowed [OF has_pool_cfg_db env_down_error,
      of sample_lib go_abc "''abc''" initial_state]
    insert_failure_is_swallowed [OF has_pool_cfg_db env_down_error,
      of sample_lib go_space "''abc''" initial_state]
  show ?thesis
    using has_pool_cfg_db env_down_error
    by (simp add: n query_dest_go_abc resolve_go_abc_db query_dest_go_space
        resolve_go_space_db encodeUrl_sample initial_state_def)
qed

text \<open>
  Claim C2, as stated, fails: with a store configured the handler is suspended at
  \<open>await pool.query(...)\<close> and has sent no response at that point.
\<close>

theorem redirect_not_awaited_counterexample:
  "has_pool cfg_db
   \<and> go_start sample_lib cfg_db go_abc ''abc'' initial_state
       = Awaiting \<lparr>i_slug = ''abc'', i_dest = ''https://x'', i_ip = ''10.0.0.7'', i_ua = []\<rparr>
   \<and> response_sent (go_start sample_lib cfg_db go_abc ''abc'' initial_state) = None"
  using has_pool_cfg_db
proof -
  have ip: "client_ip go_abc = ''10.0.0.7''"
    by (simp add: client_ip_def go_abc_def request0_def js_or_def truthy_def first_piece_def
        trim_def is_space_def)
  have ua: "js_or (user_agent go_abc) [] = []"
    by (simp add: go_abc_def request0_def js_or_def truthy_def)
  show ?thesis
    using has_pool_cfg_db
    by (simp add: go_start_def response_sent_def Let_def ip ua query_dest_go_abc
        resolve_go_abc_db sample_lib_def)
qed

text \<open>
  Claim C2, amended. With a store configured, the handler awaits the insert inside its
  \<open>try\<close> block: it is suspended with the insert pending and no response sent, and the
  response follows only when the insert has settled. However the insert settles, the
  response is the same 302 to the resolved destination. Without a store nothing is
  awaited and the response is sent at once.
\<close>

theorem redirect_awaits_insert:
  "(has_pool cfg \<longrightarrow>
      go_start l cfg req sl st
        = Awaiting \<lparr>i_slug = sl, i_dest = resolve_dest (new_URL l) cfg (query_dest req),
                    i_ip = client_ip req, i_ua = js_or (user_agent req) []\<rparr>
      \<and> response_sent (go_start l cfg req sl st) = None
      \<and> snd (go_handler l cfg e req sl st)
          = redirect (encodeUrl l) 302 (resolve_dest (new_URL l) cfg (query_dest req)))
   \<and> (\<not> has_pool cfg \<longrightarrow>
        response_sent (go_start l cfg req sl st)
          = Some (redirect (encodeUrl l) 302 (resolve_dest (new_URL l) cfg (query_dest req))))
   \<and> snd (go_resume l a out st') = redirect (encodeUrl l) 302 (i_dest a)"
  by (simp add: go_start_def response_sent_def Let_def go_handler_def pool_insert_def
      go_resume_def go_finish_def split: option.splits outcome.splits)

theorem redirect_awaits_insert_witness:
  "has_pool cfg_db
   \<and> response_sent (go_start sample_lib cfg_db go_abc ''abc'' initial_state) = None
   \<and> snd (go_handler sample_lib cfg_db env_down go_abc ''abc'' initial_state) = redirect (encodeUrl sample_lib) 302 ''https://x''
   \<and> snd (go_handler sample_lib cfg_db env0 go_abc ''abc'' initial_state) = redirect (encodeUrl sample_lib) 302 ''https://x''
   \<and> \<not> has_pool cfg_plain
   \<and> response_sent (go_start sample_lib cfg_plain go_abc ''abc'' initial_state)
       = Some (redirect (encodeUrl sample_lib) 302 ''https://x'')"
  using redirect_awaits_insert [of cfg_db sample_lib go_abc "''abc''" initial_state env_down]
    redirect_awaits_insert [of cfg_db sample_lib go_abc "''abc''" initial_state env0]
    redirect_awaits_insert [of cfg_plain sample_lib go_abc "''abc''" initial_state env0]
    has_pool_cfg_db no_pool_cfg_plain
  by (simp add: query_dest_go_abc resolve_go_abc_db resolve_go_abc_plain sample_lib_def)


section \<open>No store at the start of the process\<close>

text \<open>
  The hardened server without \<open>DATABASE_URL\<close>: the process starts with an empty log and
  a live switch, and the handler skips the insert, counts and redirects.
\<close>

lemma no_store_startup:
  "\<not> has_pool cfg \<Longrightarrow> startup cfg schema
     = initial_state\<lparr>console := [''No DATABASE_URL set. Logging disabled.'']\<rparr>"
  by (simp add: startup_def)

lemma no_store_redirect:
  assumes "\<not> has_pool cfg"
  shows "go_handler l cfg e req sl st =
           (st\<lparr>clicksTotal := (clicksTotal st)(sl := clicksTotal st sl + 1)\<rparr>,
            redirect (encodeUrl l) 302 (resolve_dest (new_URL l) cfg (query_dest req)))"
  using assms
  by (simp add: go_handler_def go_start_def go_finish_def Let_def)

text \<open>
  Claim C5 at the first server: when the store cannot be reached at the start, the
  awaited \<open>CREATE TABLE\<close> rejects and the process ends with that error instead of
  starting.
\<close>

theorem first_server_start_fails:
  "startup_v1 (Rejected ''connect ECONNREFUSED 127.0.0.1:5432'')
     = Inl ''connect ECONNREFUSED 127.0.0.1:5432''"
  by (simp add: startup_v1_def)


section \<open>The kill switch in the chain of handlers\<close>

lemma toLowerCase_append: "toLowerCase (a @ b) = toLowerCase a @ toLowerCase b"
  by (simp add: toLowerCase_def)

lemma admin_prefix_not_status:
  assumes "startsWith p ''/admin''"
  shows "\<not> route_is ''/status'' p"
proof -
  define n where "n = length ''/admin''"
  from assms have "take n p = ''/admin''"
    by (simp only: startsWith_def n_def)
  then have "p = ''/admin'' @ drop n p"
    by (metis append_take_drop_id)
  then have "toLowerCase p = toLowerCase ''/admin'' @ toLowerCase (drop n p)"
    by (metis toLowerCase_append)
  then have "toLowerCase p = ''/admin'' @ toLowerCase (drop n p)"
    by (simp add: toLowerCase_def lower_char_def)
  then show ?thesis
    by (simp add: route_is_def)
qed

text \<open>
  Claim C3, as stated, fails: \<open>GET /status\<close> is not under the admin namespace and is
  answered with 200 while the switch is engaged.
\<close>

theorem kill_switch_all_non_admin_counterexample:
  "is_killed killed_state
   \<and> \<not> startsWith (path status_request) ''/admin''
   \<and> serve sample_lib cfg_plain env0 status_request killed_state
       = (killed_state, \<lparr>status = 200, headers = [],
            body = Json_status_ok ''2024-01-15T10:00:00.000Z'' 0\<rparr>)"
proof -
  have k: "killed_state = initial_state\<lparr>killed := Some True\<rparr>"
    by (simp add: killed_state_def serve_def after_gate_def admin_kill_def kill_request_def
        request0_def is_get_def route_is_def kill_gate_def is_killed_def initial_state_def
        adminOK_def ADMIN_def cfg_plain_def js_or_def truthy_def toLowerCase_def lower_char_def)
  show ?thesis
    by (simp add: k serve_def status_request_def request0_def is_get_def route_is_def
        status_handler_def no_pool_cfg_plain json_def env0_def is_killed_def startsWith_def
        toLowerCase_def lower_char_def)
qed

text \<open>
  Claim C3, amended. While the switch is engaged, every request that is not
  \<open>GET /status\<close> and whose path does not start with \<open>/admin\<close> is answered with 503 and
  leaves the whole state as it was. \<open>GET /status\<close> is answered by its handler with 200
  whatever the switch says, without changing the state. A request whose path starts with
  \<open>/admin\<close> always passes the gate and goes on to the handlers behind it.
\<close>

theorem kill_switch_gate:
  "(is_killed st \<and> \<not> startsWith (path req) ''/admin''
      \<and> \<not> (is_get (meth req) \<and> route_is ''/status'' (path req))
      \<longrightarrow> serve l cfg e req st = (st, send 503 ''Service unavailable''))
   \<and> (is_get (meth req) \<and> route_is ''/status'' (path req)
      \<longrightarrow> serve l cfg e req st = status_handler cfg e st
          \<and> status (snd (status_handler cfg e st)) = 200
          \<and> fst (status_handler cfg e st) = st)
   \<and> (startsWith (path req) ''/admin''
      \<longrightarrow> serve l cfg e req st = after_gate l cfg e req st)"
  using admin_prefix_not_status [of "path req"]
  by (auto simp add: serve_def kill_gate_def status_handler_def json_def split: option.splits)

theorem kill_switch_gate_witness:
  "is_killed killed_state
   \<and> serve sample_lib cfg_plain env0 go_abc killed_state
       = (killed_state, send 503 ''Service unavailable'')
   \<and> status (snd (serve sample_lib cfg_plain env0 status_request killed_state)) = 200
   \<and> serve sample_lib cfg_plain env0 kill_request killed_state
       = after_gate sample_lib cfg_plain env0 kill_request killed_state"
proof -
  have k: "killed_state = initial_state\<lparr>killed := Some True\<rparr>"
    by (simp add: killed_state_def serve_def after_gate_def admin_kill_def kill_request_def
        request0_def is_get_def route_is_def kill_gate_def is_killed_def initial_state_def
        adminOK_def ADMIN_def cfg_plain_def js_or_def truthy_def toLowerCase_def lower_char_def)
  have a: "is_killed killed_state"
    by (simp add: k is_killed_def)
  have b: "\<not> startsWith (path go_abc) ''/admin''"
    by (simp add: go_abc_def startsWith_def)
  have c: "\<not> route_is ''/status'' (path go_abc)"
    by (simp add: go_abc_def route_is_def toLowerCase_def lower_char_def)
  have d: "is_get (meth status_request) \<and> route_is ''/status'' (path status_request)"
    by (simp add: status_request_def request0_def is_get_def route_is_def toLowerCase_def
        lower_char_def)
  have e: "startsWith (path kill_request) ''/admin''"
    by (simp add: kill_request_def startsWith_def)
  from kill_switch_gate [of killed_state go_abc sample_lib cfg_plain env0]
    kill_switch_gate [of killed_state status_request sample_lib cfg_plain env0]
    kill_switch_gate [of killed_state kill_request sample_lib cfg_plain env0]
    a b c d e
  show ?thesis by simp
qed


section \<open>The admin queries\<close>

lemma adminOK_last_request: "adminOK cfg_db last_request"
  by (simp add: adminOK_def ADMIN_def cfg_db_def last_request_def request0_def js_or_def
      truthy_def)

lemma adminOK_day_request: "adminOK cfg_db day_request"
  by (simp add: adminOK_def ADMIN_def cfg_db_def day_request_def request0_def js_or_def
      truthy_def)

lemma not_adminOK_request0: "\<not> adminOK cfg_db request0"
  by (simp add: adminOK_def request0_def)

lemma select_last_sample:
  "map l_slug (select_last sample_clicks) = [''g'', ''f'', ''e'', ''d'', ''c'']"
  by (simp add: select_last_def sample_clicks_def click_of_def)

lemma select_day_sample:
  "select_day (2024, 1, 15) sample_clicks
     = [click_of 2 (2024, 1, 15) ''b'', click_of 3 (2024, 1, 15) ''c'',
        click_of 5 (2024, 1, 15) ''e'']"
  by (simp add: select_day_def sample_clicks_def click_of_def)

lemma day_param_sample: "export_day_param env0 day_request = ''2024-01-15''"
  by (simp add: export_day_param_def day_request_def request0_def js_or_def truthy_def
      trim_def is_space_def)

lemma last_five_length: "length (take 5 (rev (sort_key click_id tbl))) = min 5 (length tbl)"
  by (simp add: min.commute)

lemma last_five_mset: "mset (take 5 (rev (sort_key click_id tbl))) \<subseteq># mset tbl"
proof -
  have "mset (take 5 (rev (sort_key click_id tbl))) \<subseteq># mset (rev (sort_key click_id tbl))"
    by (metis append_take_drop_id mset_subset_eq_add_left mset_append)
  then show ?thesis by simp
qed

lemma sort_key_desc: "sorted_wrt (\<lambda>a b. click_id b \<le> click_id a) (rev (sort_key click_id tbl))"
proof -
  have "sorted (map click_id (sort_key click_id tbl))"
    by (rule sorted_sort_key)
  then have "sorted_wrt (\<lambda>a b. click_id a \<le> click_id b) (sort_key click_id tbl)"
    by (simp add: sorted_map)
  then show ?thesis
    by (simp add: sorted_wrt_rev)
qed

lemma last_five_desc:
  "sorted_wrt (\<lambda>a b. click_id b \<le> click_id a) (take 5 (rev (sort_key click_id tbl)))"
  using sort_key_desc [of tbl] by (rule sorted_wrt_take)

lemma last_five_most_recent:
  assumes "c \<in> set (take 5 (rev (sort_key click_id tbl)))"
    and "c' \<in> set tbl" and "c' \<notin> set (take 5 (rev (sort_key click_id tbl)))"
  shows "click_id c' \<le> click_id c"
proof -
  let ?r = "rev (sort_key click_id tbl)"
  have "set ?r = set (take 5 ?r) \<union> set (drop 5 ?r)"
    by (metis append_take_drop_id set_append)
  with assms(2,3) have d: "c' \<in> set (drop 5 ?r)"
    by auto
  have "sorted_wrt (\<lambda>a b. click_id b \<le> click_id a) (take 5 ?r @ drop 5 ?r)"
    using sort_key_desc [of tbl] by simp
  then have "\<forall>x\<in>set (take 5 ?r). \<forall>y\<in>set (drop 5 ?r). click_id y \<le> click_id x"
    by (simp only: sorted_wrt_append) blast
  with assms(1) d show ?thesis by blast
qed

text \<open>
  Claim C8. When the \<open>x-admin-pass\<close> header does not match, the recent-events endpoint
  answers 403 and does nothing else. In every case its response carries at most five
  rows. When the caller is authorised and the store answers, the rows are those of the
  clicks with the greatest ids, however many clicks there are: five of them or all if
  there are fewer, in descending order of id, every click left out having an id no
  greater than any click returned; each row carries the timestamp, the slug and the
  first 60 characters of the destination.
\<close>

theorem admin_last_recent_five:
  "(\<not> adminOK cfg req \<longrightarrow> admin_last cfg e req st = (st, send 403 ''forbidden''))
   \<and> length (rows_of (snd (admin_last cfg e req st))) \<le> 5
   \<and> (adminOK cfg req \<and> has_pool cfg \<and> db_error e = None \<longrightarrow>
        (\<exists>cs. admin_last cfg e req st
                = (st, json 200 (Json_rows
                     (map (\<lambda>c. \<lparr>l_ts = ts c, l_slug = slug c, l_dest = take 60 (dest c)\<rparr>) cs)))
            \<and> length cs = min 5 (length (clicks st))
            \<and> mset cs \<subseteq># mset (clicks st)
            \<and> sorted_wrt (\<lambda>a b. click_id b \<le> click_id a) cs
            \<and> (\<forall>c\<in>set cs. \<forall>c'\<in>set (clicks st). c' \<notin> set cs \<longrightarrow> click_id c' \<le> click_id c)))"
proof (intro conjI impI)
  assume "\<not> adminOK cfg req"
  then show "admin_last cfg e req st = (st, send 403 ''forbidden'')"
    by (simp add: admin_last_def forbidden_def)
next
  show "length (rows_of (snd (admin_last cfg e req st))) \<le> 5"
    by (simp add: admin_last_def rows_of_def forbidden_def send_def json_def select_last_def
        split: option.splits)
next
  assume a: "adminOK cfg req \<and> has_pool cfg \<and> db_error e = None"
  let ?cs = "take 5 (rev (sort_key click_id (clicks st)))"
  have "admin_last cfg e req st
          = (st, json 200 (Json_rows
               (map (\<lambda>c. \<lparr>l_ts = ts c, l_slug = slug c, l_dest = take 60 (dest c)\<rparr>) ?cs)))"
    using a by (simp add: admin_last_def select_last_def)
  moreover have "length ?cs = min 5 (length (clicks st))"
    by (rule last_five_length)
  moreover have "mset ?cs \<subseteq># mset (clicks st)"
    by (rule last_five_mset)
  moreover have "sorted_wrt (\<lambda>a b. click_id b \<le> click_id a) ?cs"
    by (rule last_five_desc)
  moreover have "\<forall>c\<in>set ?cs. \<forall>c'\<in>set (clicks st). c' \<notin> set ?cs \<longrightarrow> click_id c' \<le> click_id c"
    using last_five_most_recent by blast
  ultimately show "\<exists>cs. admin_last cfg e req st
                = (st, json 200 (Json_rows
                     (map (\<lambda>c. \<lparr>l_ts = ts c, l_slug = slug c, l_dest = take 60 (dest c)\<rparr>) cs)))
            \<and> length cs = min 5 (length (clicks st))
            \<and> mset cs \<subseteq># mset (clicks st)
            \<and> sorted_wrt (\<lambda>a b. click_id b \<le> click_id a) cs
            \<and> (\<forall>c\<in>set cs. \<forall>c'\<in>set (clicks st). c' \<notin> set cs \<longrightarrow> click_id c' \<le> click_id c)"
    by blast
qed

theorem admin_last_recent_five_witness:
  "\<not> adminOK cfg_db request0
   \<and> admin_last cfg_db env0 request0 state_with_clicks
       = (state_with_clicks, send 403 ''forbidden'')
   \<and> adminOK cfg_db last_request \<and> has_pool cfg_db \<and> db_error env0 = None
   \<and> length (clicks state_with_clicks) = 7
   \<and> length (rows_of (snd (admin_last cfg_db env0 last_request state_with_clicks))) \<le> 5
   \<and> map l_slug (rows_of (snd (admin_last cfg_db env0 last_request state_with_clicks)))
       = [''g'', ''f'', ''e'', ''d'', ''c'']"
proof -
  have e: "db_error env0 = None"
    by (simp add: env0_def)
  have n: "length (clicks state_with_clicks) = 7"
    by (simp add: state_with_clicks_def sample_clicks_def)
  have r: "map l_slug (rows_of (snd (admin_last cfg_db env0 last_request state_with_clicks)))
       = [''g'', ''f'', ''e'', ''d'', ''c'']"
    using select_last_sample
    by (simp add: admin_last_def adminOK_last_request has_pool_cfg_db e rows_of_def json_def
        state_with_clicks_def)
  from admin_last_recent_five [of cfg_db request0 env0 state_with_clicks]
    admin_last_recent_five [of cfg_db last_request env0 state_with_clicks]
    not_adminOK_request0 adminOK_last_request has_pool_cfg_db e n r
  show ?thesis by simp
qed

lemma select_day_mset:
  "mset (select_day d tbl) = filter_mset (\<lambda>c. ts_date (ts c) = d) (mset tbl)"
  by (simp add: select_day_def)

lemma select_day_sorted: "sorted (map click_id (select_day d tbl))"
  by (simp add: select_day_def)

text \<open>
  The day export for a day with events. For an authorised caller, when the store
  answers, accepts the day as a date and the encoder accepts the rows, the response is
  200 with the encoding of exactly the clicks whose timestamp has that date, each as
  often as it is in the table, in ascending order of id, as a CSV attachment named
  \<open>clicks_<day>.csv\<close>. The day is the trimmed \<open>day\<close> parameter, or the first ten
  characters of the current time in ISO format when the parameter is missing or empty.
\<close>

lemma export_day_rows:
  assumes "adminOK cfg req" and "has_pool cfg" and "db_error e = None"
    and "to_date l (export_day_param e req) = Some d"
    and "csv_parse l [''id'', ''ts'', ''ip'', ''ua'', ''slug'', ''dest''] (select_day d (clicks st))
           = Inr text"
  shows "admin_export_day l cfg e req st
           = (st, \<lparr>status = 200,
                   headers = [(''Content-Type'', Str ''text/csv''),
                              (''Content-Disposition'',
                               Str (''attachment; filename=clicks_'' @ export_day_param e req
                                    @ ''.csv''))],
                   body = Text text\<rparr>)
       \<and> mset (select_day d (clicks st)) = filter_mset (\<lambda>c. ts_date (ts c) = d) (mset (clicks st))
       \<and> sorted (map click_id (select_day d (clicks st)))
       \<and> export_day_param e req
           = trim (if truthy (query_day req) then the (query_day req) else take 10 (now_iso e))"
  using assms
  by (simp add: admin_export_day_def Let_def select_day_mset select_day_sorted
      export_day_param_def js_or_def csv_response_def)

lemma export_day_sample:
  "admin_export_day sample_lib cfg_db env0 day_request state_with_clicks
     = (state_with_clicks,
        \<lparr>status = 200,
         headers = [(''Content-Type'', Str ''text/csv''),
                    (''Content-Disposition'', Str ''attachment; filename=clicks_2024-01-15.csv'')],
         body = Text ''bce''\<rparr>)"
proof -
  have e: "db_error env0 = None"
    by (simp add: env0_def)
  have d: "to_date sample_lib (export_day_param env0 day_request) = Some (2024, 1, 15)"
    by (simp add: day_param_sample sample_lib_def)
  have c: "clicks state_with_clicks = sample_clicks"
    by (simp add: state_with_clicks_def)
  have t: "csv_parse sample_lib [''id'', ''ts'', ''ip'', ''ua'', ''slug'', ''dest'']
             (select_day (2024, 1, 15) (clicks state_with_clicks)) = Inr ''bce''"
    unfolding c select_day_sample by (simp add: sample_lib_def click_of_def)
  from export_day_rows [OF adminOK_day_request has_pool_cfg_db e d t]
  show ?thesis by (simp add: day_param_sample)
qed

lemma select_day_none:
  "(\<forall>c\<in>set tbl. ts_date (ts c) \<noteq> d) \<Longrightarrow> select_day d tbl = []"
  by (simp add: select_day_def filter_empty_conv)

text \<open>
  Claim C9 at a day without events, and at a server without a store. The encoder of
  \<open>json2csv\<close> throws on an empty row list. When it does, an authorised request for a
  day on which the table has no click, or any authorised request when no store is
  configured, is answered with 500 and the text \<open>export error\<close> followed by the
  encoder's message, not with an export of the (no) events of that day.
\<close>

theorem export_day_empty_fails:
  assumes "adminOK cfg req"
    and "csv_parse l [''id'', ''ts'', ''ip'', ''ua'', ''slug'', ''dest''] [] = Inl m"
    and "\<not> has_pool cfg
         \<or> (db_error e = None \<and> to_date l (export_day_param e req) = Some d
             \<and> (\<forall>c\<in>set (clicks st). ts_date (ts c) \<noteq> d))"
  shows "admin_export_day l cfg e req st
           = (st, \<lparr>status = 500, headers = [], body = Text (''export error: '' @ m)\<rparr>)"
proof (cases "has_pool cfg")
  case False
  with assms(1,2) show ?thesis
    by (simp add: admin_export_day_def Let_def send_def)
next
  case True
  with assms(3) have s: "db_error e = None" "to_date l (export_day_param e req) = Some d"
    "select_day d (clicks st) = []"
    by (simp_all add: select_day_none)
  with True assms(1,2) show ?thesis
    by (simp add: admin_export_day_def Let_def send_def)
qed

theorem export_day_empty_fails_witness:
  "adminOK cfg_db empty_day_request \<and> has_pool cfg_db \<and> db_error env0 = None
   \<and> to_date sample_lib (export_day_param env0 empty_day_request) = Some (2024, 1, 17)
   \<and> select_day (2024, 1, 17) (clicks state_with_clicks) = []
   \<and> admin_export_day sample_lib cfg_db env0 empty_day_request state_with_clicks
       = (state_with_clicks,
          \<lparr>status = 500, headers = [],
           body = Text ''export error: Data should not be empty''\<rparr>)
   \<and> adminOK cfg_plain plain_day_request \<and> \<not> has_pool cfg_plain
   \<and> admin_export_day sample_lib cfg_plain env0 plain_day_request state_with_clicks
       = (state_with_clicks,
          \<lparr>status = 500, headers = [],
           body = Text ''export error: Data should not be empty''\<rparr>)"
proof -
  have a: "adminOK cfg_db empty_day_request"
    by (simp add: adminOK_def ADMIN_def cfg_db_def empty_day_request_def day_request_def
        request0_def js_or_def truthy_def)
  have b: "adminOK cfg_plain plain_day_request"
    by (simp add: adminOK_def ADMIN_def cfg_plain_def plain_day_request_def day_request_def
        request0_def js_or_def truthy_def)
  have m: "csv_parse sample_lib [''id'', ''ts'', ''ip'', ''ua'', ''slug'', ''dest''] []
             = Inl ''Data should not be empty''"
    by (simp add: sample_lib_def)
  have e: "db_error env0 = None"
    by (simp add: env0_def)
  have p: "export_day_param env0 empty_day_request = ''2024-01-17''"
    by (simp add: export_day_param_def empty_day_request_def day_request_def request0_def
        js_or_def truthy_def trim_def is_space_def)
  have d: "to_date sample_lib (export_day_param env0 empty_day_request) = Some (2024, 1, 17)"
    by (simp add: p sample_lib_def)
  have n: "\<forall>c\<in>set (clicks state_with_clicks). ts_date (ts c) \<noteq> (2024, 1, 17)"
    by (simp add: state_with_clicks_def sample_clicks_def click_of_def)
  have s: "select_day (2024, 1, 17) (clicks state_with_clicks) = []"
    using n by (rule select_day_none)
  have c1: "\<not> has_pool cfg_db
         \<or> (db_error env0 = None
             \<and> to_date sample_lib (export_day_param env0 empty_day_request) = Some (2024, 1, 17)
             \<and> (\<forall>c\<in>set (clicks state_with_clicks). ts_date (ts c) \<noteq> (2024, 1, 17)))"
    using e d n by blast
  have c2: "\<not> has_pool cfg_plain
         \<or> (db_error env0 = None
             \<and> to_date sample_lib (export_day_param env0 plain_day_request) = Some (2024, 1, 17)
             \<and> (\<forall>c\<in>set (clicks state_with_clicks). ts_date (ts c) \<noteq> (2024, 1, 17)))"
    using no_pool_cfg_plain by blast
  from export_day_empty_fails [OF a m c1] export_day_empty_fails [OF b m c2]
    a b e d s has_pool_cfg_db no_pool_cfg_plain
  show ?thesis by simp
qed

section \<open>The rate limiter in the chain of handlers\<close>

lemma go_slug_prefix:
  assumes "go_slug p \<noteq> None"
  shows "take 4 (toLowerCase p) = ''/go/''"
  using assms by (simp add: go_slug_def toLowerCase_def take_map split: if_splits)

lemma go_slug_routes:
  assumes "go_slug p \<noteq> None"
  shows "mounted_at ''/go'' p" and "\<not> route_is ''/status'' p" and "\<not> route_root p"
proof -
  have t: "take 4 (toLowerCase p) = ''/go/''"
    using assms by (rule go_slug_prefix)
  show "mounted_at ''/go'' p"
    using t by (simp add: mounted_at_def startsWith_def eval_nat_numeral)
  show "\<not> route_is ''/status'' p"
    using t by (auto simp add: route_is_def)
  show "\<not> route_root p"
    using t by (auto simp add: route_root_def toLowerCase_def lower_char_def)
qed

lemma is_get_not_POST: "is_get m \<Longrightarrow> m \<noteq> POST"
  by (auto simp add: is_get_def)

lemma limiter_header_names:
  "map fst (limiter_headers goLimiter now n reset)
     = [''RateLimit-Limit'', ''RateLimit-Remaining'', ''RateLimit-Reset'']"
  by (simp add: limiter_headers_def goLimiter_def)

lemma go_handler_outline:
  "outline (snd (go_handler l cfg e req sl st)) = (302, [''Location''])"
  by (simp add: go_handler_def go_start_def pool_insert_def go_resume_def go_finish_def
      redirect_def outline_def Let_def split: option.splits)

lemma go_handler_keeps:
  "killed (fst (go_handler l cfg e req sl st)) = killed st
   \<and> limiter_hits (fst (go_handler l cfg e req sl st)) = limiter_hits st"
  by (simp add: go_handler_def go_start_def pool_insert_def go_resume_def go_finish_def
      Let_def split: option.splits)

lemma serve_go:
  assumes "\<not> is_killed st" and "is_get (meth req)" and "go_slug (path req) \<noteq> None"
  shows "serve l cfg e req st =
           (case rateLimit goLimiter l e req st of
              (st', Limited r) \<Rightarrow> (st', r)
            | (st', Passed hs) \<Rightarrow>
                add_headers hs (go_handler l cfg e req (the (go_slug (path req))) st'))"
  using assms go_slug_routes [OF assms(3)] is_get_not_POST [OF assms(2)]
  by (simp add: serve_def kill_gate_def after_gate_def after_limiter_def
      split: prod.splits limited.splits)

lemma rateLimit_in_window:
  assumes "limiter_hits st (key_of l req) = Some (reset, n)" and "now_ms e < reset"
  shows "rateLimit goLimiter l e req st =
           (st\<lparr>limiter_hits := (limiter_hits st)(key_of l req \<mapsto> (reset, n + 1))\<rparr>,
            if 120 < n + 1 then
              Limited \<lparr>status = 429,
                       headers = limiter_headers goLimiter (now_ms e) (n + 1) reset,
                       body = Text ''Too many requests, please try again later.''\<rparr>
            else Passed (limiter_headers goLimiter (now_ms e) (n + 1) reset))"
  using assms
  by (simp add: rateLimit_def limiter_increment_def Let_def goLimiter_def)

lemma rateLimit_new_window:
  assumes "limiter_hits st (key_of l req) = None
           \<or> (\<exists>reset n. limiter_hits st (key_of l req) = Some (reset, n) \<and> reset \<le> now_ms e)"
  shows "rateLimit goLimiter l e req st =
           (st\<lparr>limiter_hits := (limiter_hits st)(key_of l req \<mapsto> (now_ms e + 60000, 1))\<rparr>,
            Passed (limiter_headers goLimiter (now_ms e) 1 (now_ms e + 60000)))"
  using assms
  by (auto simp add: rateLimit_def limiter_increment_def Let_def goLimiter_def)

lemma serve_go_in_window:
  assumes "\<not> is_killed st" and "is_get (meth req)" and "go_slug (path req) \<noteq> None"
    and "limiter_hits st (key_of l req) = Some (reset, n)" and "now_ms e < reset"
  shows "outline (snd (serve l cfg e req st))
           = (if n + 1 \<le> 120
              then (302, [''RateLimit-Limit'', ''RateLimit-Remaining'', ''RateLimit-Reset'',
                          ''Location''])
              else (429, [''RateLimit-Limit'', ''RateLimit-Remaining'', ''RateLimit-Reset'']))"
    and "\<not> is_killed (fst (serve l cfg e req st))"
    and "limiter_hits (fst (serve l cfg e req st)) (key_of l req) = Some (reset, n + 1)"
proof -
  let ?st' = "st\<lparr>limiter_hits := (limiter_hits st)(key_of l req \<mapsto> (reset, n + 1))\<rparr>"
  let ?h = "go_handler l cfg e req (the (go_slug (path req))) ?st'"
  have s: "serve l cfg e req st =
             (if 120 < n + 1 then
                (?st', \<lparr>status = 429,
                        headers = limiter_headers goLimiter (now_ms e) (n + 1) reset,
                        body = Text ''Too many requests, please try again later.''\<rparr>)
              else add_headers (limiter_headers goLimiter (now_ms e) (n + 1) reset) ?h)"
    by (simp add: serve_go [OF assms(1-3)] rateLimit_in_window [OF assms(4,5)])
  have o: "outline (snd ?h) = (302, [''Location''])"
    by (rule go_handler_outline)
  show "outline (snd (serve l cfg e req st))
           = (if n + 1 \<le> 120
              then (302, [''RateLimit-Limit'', ''RateLimit-Remaining'', ''RateLimit-Reset'',
                          ''Location''])
              else (429, [''RateLimit-Limit'', ''RateLimit-Remaining'', ''RateLimit-Reset'']))"
    using o by (simp add: s add_headers_def outline_def limiter_header_names)
  show "\<not> is_killed (fst (serve l cfg e req st))"
    using assms(1) go_handler_keeps [of l cfg e req "the (go_slug (path req))" ?st']
    by (simp add: s add_headers_def is_killed_def)
  show "limiter_hits (fst (serve l cfg e req st)) (key_of l req) = Some (reset, n + 1)"
    using go_handler_keeps [of l cfg e req "the (go_slug (path req))" ?st']
    by (simp add: s add_headers_def)
qed

lemma serve_go_new_window:
  assumes "\<not> is_killed st" and "is_get (meth req)" and "go_slug (path req) \<noteq> None"
    and "limiter_hits st (key_of l req) = None
         \<or> (\<exists>reset n. limiter_hits st (key_of l req) = Some (reset, n) \<and> reset \<le> now_ms e)"
  shows "outline (snd (serve l cfg e req st))
           = (302, [''RateLimit-Limit'', ''RateLimit-Remaining'', ''RateLimit-Reset'',
                    ''Location''])"
    and "\<not> is_killed (fst (serve l cfg e req st))"
    and "limiter_hits (fst (serve l cfg e req st)) (key_of l req)
           = Some (now_ms e + 60000, 1)"
proof -
  let ?st' = "st\<lparr>limiter_hits := (limiter_hits st)(key_of l req \<mapsto> (now_ms e + 60000, 1))\<rparr>"
  let ?h = "go_handler l cfg e req (the (go_slug (path req))) ?st'"
  have s: "serve l cfg e req st
             = add_headers (limiter_headers goLimiter (now_ms e) 1 (now_ms e + 60000)) ?h"
    by (simp add: serve_go [OF assms(1-3)] rateLimit_new_window [OF assms(4)])
  have o: "outline (snd ?h) = (302, [''Location''])"
    by (rule go_handler_outline)
  show "outline (snd (serve l cfg e req st))
           = (302, [''RateLimit-Limit'', ''RateLimit-Remaining'', ''RateLimit-Reset'',
                    ''Location''])"
    using o by (simp add: s add_headers_def outline_def limiter_header_names)
  show "\<not> is_killed (fst (serve l cfg e req st))"
    using assms(1) go_handler_keeps [of l cfg e req "the (go_slug (path req))" ?st']
    by (simp add: s add_headers_def is_killed_def)
  show "limiter_hits (fst (serve l cfg e req st)) (key_of l req)
           = Some (now_ms e + 60000, 1)"
    using go_handler_keeps [of l cfg e req "the (go_slug (path req))" ?st']
    by (simp add: s add_headers_def)
qed

lemma serve_all_in_window:
  assumes "\<not> is_killed st" and "limiter_hits st k = Some (reset, n)"
    and "\<forall>y\<in>set xs. is_get (meth (snd y)) \<and> go_slug (path (snd y)) \<noteq> None
           \<and> key_of l (snd y) = k \<and> now_ms (fst y) < reset"
  shows "map outline (snd (serve_all l cfg st xs))
           = map (\<lambda>j. if n + j + 1 \<le> 120
                       then (302, [''RateLimit-Limit'', ''RateLimit-Remaining'',
                                   ''RateLimit-Reset'', ''Location''])
                       else (429, [''RateLimit-Limit'', ''RateLimit-Remaining'',
                                   ''RateLimit-Reset'']))
               [0..<length xs]"
  using assms
proof (induction xs arbitrary: st n)
  case Nil
  then show ?case by simp
next
  case (Cons x xs)
  obtain st' r where sv: "serve l cfg (fst x) (snd x) st = (st', r)"
    by (cases "serve l cfg (fst x) (snd x) st")
  from Cons.prems have x: "is_get (meth (snd x))" "go_slug (path (snd x)) \<noteq> None"
    "key_of l (snd x) = k" "now_ms (fst x) < reset"
    by simp_all
  have h: "limiter_hits st (key_of l (snd x)) = Some (reset, n)"
    using Cons.prems(2) x(3) by simp
  note step = serve_go_in_window [OF Cons.prems(1) x(1,2) h x(4), of cfg]
  have r: "outline r = (if n + 1 \<le> 120
              then (302, [''RateLimit-Limit'', ''RateLimit-Remaining'', ''RateLimit-Reset'',
                          ''Location''])
              else (429, [''RateLimit-Limit'', ''RateLimit-Remaining'', ''RateLimit-Reset'']))"
    using step(1) sv by simp
  have live: "\<not> is_killed st'"
    using step(2) sv by simp
  have hits: "limiter_hits st' k = Some (reset, Suc n)"
    using step(3) sv x(3) by simp
  have rest: "\<forall>y\<in>set xs. is_get (meth (snd y)) \<and> go_slug (path (snd y)) \<noteq> None
           \<and> key_of l (snd y) = k \<and> now_ms (fst y) < reset"
    using Cons.prems(3) by simp
  obtain st'' rs where sa: "serve_all l cfg st' xs = (st'', rs)"
    by (cases "serve_all l cfg st' xs")
  have "map outline (snd (serve_all l cfg st' xs))
           = map (\<lambda>j. if Suc n + j + 1 \<le> 120
                       then (302, [''RateLimit-Limit'', ''RateLimit-Remaining'',
                                   ''RateLimit-Reset'', ''Location''])
                       else (429, [''RateLimit-Limit'', ''RateLimit-Remaining'',
                                   ''RateLimit-Reset'']))
               [0..<length xs]"
    by (rule Cons.IH [OF live hits rest])
  then have ih: "map outline rs
           = map (\<lambda>j. if n + Suc j + 1 \<le> 120
                       then (302, [''RateLimit-Limit'', ''RateLimit-Remaining'',
                                   ''RateLimit-Reset'', ''Location''])
                       else (429, [''RateLimit-Limit'', ''RateLimit-Remaining'',
                                   ''RateLimit-Reset'']))
               [0..<length xs]"
    by (simp add: sa)
  have u: "[0..<length (x # xs)] = 0 # map Suc [0..<length xs]"
    by (simp add: upt_conv_Cons map_Suc_upt del: upt_Suc)
  have "snd (serve_all l cfg st (x # xs)) = r # rs"
    by (simp add: sv sa)
  then show ?case
    by (simp only: u list.map map_map comp_def r ih add_0_right)
qed


lemma map_threshold:
  "map (\<lambda>j. if j < m then a else b) [0..<Suc m] = replicate m a @ [b]"
proof -
  have "map (\<lambda>j. if j < m then a else b) [0..<m] = map (\<lambda>j. a) [0..<m]"
    by (rule map_cong) auto
  then show ?thesis
    by (simp add: map_replicate_const)
qed

lemma limiter_only_under_go:
  assumes "\<not> mounted_at ''/go'' (path req)"
  shows "limiter_hits (fst (serve l cfg e req st)) = limiter_hits st"
proof -
  have "go_slug (path req) = None"
    using assms go_slug_routes(1) [of "path req"] by blast
  then show ?thesis
    using assms
    by (simp add: serve_def status_handler_def after_gate_def after_limiter_def admin_kill_def
        admin_unkill_def root_handler_def admin_last_def admin_export_def admin_export_day_def
        metrics_handler_def Let_def split: option.splits outcome.splits sum.splits)
qed

text \<open>
  Claim C6. The limiter is mounted at \<open>/go\<close> with a window of 60000 milliseconds and a
  maximum of 120. On a live server, when a client key starts a window with a redirect
  request and sends 120 more within that window, the first 120 of the 121 requests are
  answered with 302 and the last with 429; every one of the responses carries the three
  standard headers \<open>RateLimit-Limit\<close>, \<open>RateLimit-Remaining\<close> and \<open>RateLimit-Reset\<close>,
  and none a legacy \<open>X-RateLimit\<close> header. A request whose path is not under \<open>/go\<close>
  leaves the limiter's store as it was.
\<close>

theorem rate_limit_121:
  assumes "\<not> is_killed st"
    and "limiter_hits st k = None
         \<or> (\<exists>reset n. limiter_hits st k = Some (reset, n) \<and> reset \<le> now_ms (fst x))"
    and "length xs = 120"
    and "\<forall>y\<in>set (x # xs). is_get (meth (snd y)) \<and> go_slug (path (snd y)) \<noteq> None
           \<and> key_of l (snd y) = k"
    and "\<forall>y\<in>set xs. now_ms (fst y) < now_ms (fst x) + 60000"
  shows "map outline (snd (serve_all l cfg st (x # xs)))
           = replicate 120 (302, [''RateLimit-Limit'', ''RateLimit-Remaining'',
                                  ''RateLimit-Reset'', ''Location''])
             @ [(429, [''RateLimit-Limit'', ''RateLimit-Remaining'', ''RateLimit-Reset''])]
       \<and> (\<not> mounted_at ''/go'' (path req)
            \<longrightarrow> limiter_hits (fst (serve l cfg e req st')) = limiter_hits st')"
proof
  let ?ok = "(302::nat, [''RateLimit-Limit'', ''RateLimit-Remaining'', ''RateLimit-Reset'',
                         ''Location''])"
  let ?no = "(429::nat, [''RateLimit-Limit'', ''RateLimit-Remaining'', ''RateLimit-Reset''])"
  obtain st1 r where sv: "serve l cfg (fst x) (snd x) st = (st1, r)"
    by (cases "serve l cfg (fst x) (snd x) st")
  obtain st2 rs where sa: "serve_all l cfg st1 xs = (st2, rs)"
    by (cases "serve_all l cfg st1 xs")
  from assms(4) have x: "is_get (meth (snd x))" "go_slug (path (snd x)) \<noteq> None"
    "key_of l (snd x) = k"
    by simp_all
  have fresh: "limiter_hits st (key_of l (snd x)) = None
         \<or> (\<exists>reset n. limiter_hits st (key_of l (snd x)) = Some (reset, n)
                \<and> reset \<le> now_ms (fst x))"
    using assms(2) x(3) by simp
  note first = serve_go_new_window [OF assms(1) x(1,2) fresh, of cfg]
  have r: "outline r = ?ok"
    using first(1) sv by simp
  have live: "\<not> is_killed st1"
    using first(2) sv by simp
  have hits: "limiter_hits st1 k = Some (now_ms (fst x) + 60000, 1)"
    using first(3) sv x(3) by simp
  have rest: "\<forall>y\<in>set xs. is_get (meth (snd y)) \<and> go_slug (path (snd y)) \<noteq> None
           \<and> key_of l (snd y) = k \<and> now_ms (fst y) < now_ms (fst x) + 60000"
    using assms(4,5) by simp
  have "map outline (snd (serve_all l cfg st1 xs))
          = map (\<lambda>j. if 1 + j + 1 \<le> 120 then ?ok else ?no) [0..<length xs]"
    by (rule serve_all_in_window [OF live hits rest])
  also have "\<dots> = map (\<lambda>j. if j < 119 then ?ok else ?no) [0..<Suc 119]"
    by (rule map_cong) (auto simp add: assms(3))
  also have "\<dots> = replicate 119 ?ok @ [?no]"
    by (rule map_threshold)
  finally have "map outline rs = replicate 119 ?ok @ [?no]"
    by (simp add: sa)
  moreover have "snd (serve_all l cfg st (x # xs)) = r # rs"
    by (simp add: sv sa)
  moreover have "replicate 120 ?ok = ?ok # replicate 119 ?ok"
    by (simp add: replicate_Suc [symmetric] del: replicate_Suc)
  ultimately show "map outline (snd (serve_all l cfg st (x # xs))) = replicate 120 ?ok @ [?no]"
    using r by simp
next
  show "\<not> mounted_at ''/go'' (path req)
            \<longrightarrow> limiter_hits (fst (serve l cfg e req st')) = limiter_hits st'"
    using limiter_only_under_go by blast
qed

theorem rate_limit_121_witness:
  "map outline (snd (serve_all sample_lib cfg_plain initial_state
       ((env0, go_abc) # replicate 120 (env0\<lparr>now_ms := 30000\<rparr>, go_abc))))
     = replicate 120 (302, [''RateLimit-Limit'', ''RateLimit-Remaining'',
                            ''RateLimit-Reset'', ''Location''])
       @ [(429, [''RateLimit-Limit'', ''RateLimit-Remaining'', ''RateLimit-Reset''])]
   \<and> limiter_hits (fst (serve sample_lib cfg_plain env0 status_request initial_state))
       = limiter_hits initial_state"
proof -
  have live: "\<not> is_killed initial_state"
    by (simp add: is_killed_def initial_state_def)
  have fresh: "limiter_hits initial_state ''10.0.0.7'' = None
         \<or> (\<exists>reset n. limiter_hits initial_state ''10.0.0.7'' = Some (reset, n)
                \<and> reset \<le> now_ms (fst (env0, go_abc)))"
    by (simp add: initial_state_def)
  have len: "length (replicate 120 (env0\<lparr>now_ms := 30000\<rparr>, go_abc)) = 120"
    by simp
  have g: "is_get (meth go_abc) \<and> go_slug (path go_abc) \<noteq> None
           \<and> key_of sample_lib go_abc = ''10.0.0.7''"
    by (simp add: go_abc_def request0_def is_get_def go_slug_def sample_lib_def js_or_def
        truthy_def toLowerCase_def lower_char_def)
  have all: "\<forall>y\<in>set ((env0, go_abc) # replicate 120 (env0\<lparr>now_ms := 30000\<rparr>, go_abc)).
               is_get (meth (snd y)) \<and> go_slug (path (snd y)) \<noteq> None
               \<and> key_of sample_lib (snd y) = ''10.0.0.7''"
    using g by simp
  have win: "\<forall>y\<in>set (replicate 120 (env0\<lparr>now_ms := 30000\<rparr>, go_abc)).
               now_ms (fst y) < now_ms (fst (env0, go_abc)) + 60000"
    by (simp add: env0_def)
  have nm: "\<not> mounted_at ''/go'' (path status_request)"
    by (simp add: mounted_at_def status_request_def request0_def startsWith_def
        toLowerCase_def lower_char_def)
  from rate_limit_121 [OF live fresh len all win,
      where req = status_request and cfg = cfg_plain and e = env0 and st' = initial_state]
    nm
  show ?thesis by simp
qed


end
